theory Spec2Isabelle
  imports Complex_Main "HOL-Library.Word"
begin

unbundle bit_operations_syntax

section \<open>GMR-1 AMBE vocoder, internal API (src/codec/ambe.c)\<close>

text \<open>
  The file \<^verbatim>\<open>ambe.c\<close> classifies a 10-byte frame by its first byte, converts decoded
  subframes into the parameter block of mbelib, runs the two half-frame syntheses of a
  speech frame and keeps the decoder state between frames. The functions it calls from
  \<^verbatim>\<open>private.h\<close> (frame unpacking, parameter decoding, the mbelib routines, the tone
  decoder) are not part of the file; they enter the model as parameters.
\<close>

subsection \<open>Frames and frame types\<close>

type_synonym frame = "8 word list"

datatype ambe_frame_type = AMBE_SPEECH | AMBE_SILENCE | AMBE_TONE

text \<open>
  \<^verbatim>\<open>switch (frame[0] & 0xfc) { case 0xfc: TONE; case 0xf8: SILENCE; default: SPEECH }\<close>.
  Only \<^verbatim>\<open>frame[0]\<close> is read; a frame has ten bytes, so the first one exists.
\<close>

definition ambe_classify_frame :: "frame \<Rightarrow> ambe_frame_type" where
  "ambe_classify_frame frame =
     (let sel = (frame ! 0) AND 0xfc in
      if sel = 0xfc then AMBE_TONE
      else if sel = 0xf8 then AMBE_SILENCE
      else AMBE_SPEECH)"

subsection \<open>The output buffer\<close>

text \<open>
  \<^verbatim>\<open>int16_t *audio\<close> points into caller-owned memory. The model keeps the bytes that
  start at \<^verbatim>\<open>audio\<close>, addressed by their offset from the pointer; sample \<open>i\<close>
  occupies the bytes \<open>2 * i\<close> and \<open>2 * i + 1\<close>. Offsets at or beyond the size the caller
  allocated are the memory behind the buffer.
\<close>

type_synonym pcm_mem = "nat \<Rightarrow> 8 word"

definition sizeof_int16 :: nat where
  "sizeof_int16 = 2"

text \<open>\<^verbatim>\<open>memset(p, c, n)\<close>: the first \<open>n\<close> bytes at \<open>p\<close> become \<open>c\<close>, the rest stay.\<close>

definition memset :: "pcm_mem \<Rightarrow> 8 word \<Rightarrow> nat \<Rightarrow> pcm_mem" where
  "memset p c n = (\<lambda>a. if a < n then c else p a)"

text \<open>Sample \<open>i\<close> of the buffer, read as a little-endian 16-bit value.\<close>

definition int16_at :: "pcm_mem \<Rightarrow> nat \<Rightarrow> 16 word" where
  "int16_at p i = word_cat (p (2 * i + 1)) (p (2 * i))"

text \<open>
  \<^verbatim>\<open>sizeof(int16_t) * N\<close> with \<^verbatim>\<open>int N\<close>: the product is formed in \<^verbatim>\<open>size_t\<close>
  (64 bits), to which \<open>N\<close> is converted first.
\<close>

definition size_t_of_int :: "int \<Rightarrow> 64 word" where
  "size_t_of_int n = word_of_int n"

subsection \<open>Discontinuous transmission\<close>

text \<open>
  \<^verbatim>\<open>memset(audio, 0x00, sizeof(int16_t) * N); return 0;\<close> The decoder state is not
  touched. The result is the return value and the buffer.
\<close>

definition ambe_decode_dtx :: "'dec \<Rightarrow> pcm_mem \<Rightarrow> int \<Rightarrow> int \<times> 'dec \<times> pcm_mem" where
  "ambe_decode_dtx dec audio N =
     (0, dec, memset audio 0x00 (unat (word_of_nat sizeof_int16 * size_t_of_int N)))"

subsection \<open>Floating point\<close>

text \<open>
  The conversion computes in \<^verbatim>\<open>float\<close>. What a float operation yields (rounding,
  infinities, NaN, the accuracy of the library's \<^verbatim>\<open>powf\<close>) is fixed by the platform
  and the C library, not by \<^verbatim>\<open>ambe.c\<close>: the float type is a type parameter and the
  operations the file uses are parameters.
  \<^item> \<open>f_lit\<close>: the value of a decimal constant such as \<^verbatim>\<open>16.0f\<close> or \<^verbatim>\<open>0.2046f\<close>;
  \<^item> \<open>f_M_PI\<close>: the value of \<^verbatim>\<open>(float)M_PI\<close>;
  \<^item> \<open>f_of_int\<close>: the conversion of an \<^verbatim>\<open>int\<close> operand to \<^verbatim>\<open>float\<close>;
  \<^item> \<open>f_to_int\<close>: the cast \<^verbatim>\<open>(int)x\<close>, \<open>None\<close> where the integral part of \<open>x\<close> is not
    a value of \<^verbatim>\<open>int\<close> and the cast is undefined;
  \<^item> \<open>f_mul\<close>, \<open>f_div\<close>: \<^verbatim>\<open>*\<close> and \<^verbatim>\<open>/\<close> on floats;
  \<^item> \<open>f_sqrtf\<close>, \<open>f_powf\<close>: the library functions.
\<close>

record 'f fpu =
  f_lit :: "real \<Rightarrow> 'f"
  f_M_PI :: 'f
  f_of_int :: "int \<Rightarrow> 'f"
  f_to_int :: "'f \<Rightarrow> int option"
  f_mul :: "'f \<Rightarrow> 'f \<Rightarrow> 'f"
  f_div :: "'f \<Rightarrow> 'f \<Rightarrow> 'f"
  f_sqrtf :: "'f \<Rightarrow> 'f"
  f_powf :: "'f \<Rightarrow> 'f \<Rightarrow> 'f"

subsection \<open>Subframes and mbelib parameters\<close>

text \<open>
  \<^verbatim>\<open>struct ambe_subframe\<close> and \<^verbatim>\<open>mbe_parms\<close> are declared in headers that are not
  part of this file. The records have the members \<^verbatim>\<open>ambe.c\<close> reads or writes; the
  members it never names are the extension of the record scheme, so that a collaborator
  may depend on them and a structure copy carries them along. An array member is a list
  whose length is the declared size of the array, whatever the declaration says it is.
\<close>

record 'f ambe_subframe =
  sf_f0 :: 'f
  sf_L :: int
  sf_v_uv :: "int list"
  sf_Mlog :: "'f list"

record 'f mbe_parms =
  mp_w0 :: 'f
  mp_L :: int
  mp_Vl :: "int list"
  mp_Ml :: "'f list"

record ('f, 's, 'm) ambe_decoder =
  sf_prev :: "('f, 's) ambe_subframe_scheme"
  mp_prev :: "('f, 'm) mbe_parms_scheme"

text \<open>An index is inside an array when it is at least 0 and below the declared size.\<close>

definition in_array :: "int \<Rightarrow> 'a list \<Rightarrow> bool" where
  "in_array k xs = (0 \<le> k \<and> k < int (length xs))"

text \<open>The largest value of \<^verbatim>\<open>int\<close>.\<close>

definition INT_MAX :: int where
  "INT_MAX = 2147483647"

subsection \<open>Subframe conversion\<close>

text \<open>
  The index \<^verbatim>\<open>(int)((i-1) * 16.0f * sf->f0)\<close>: the \<^verbatim>\<open>int\<close> operand \<open>i - 1\<close> is
  converted to float, multiplied by \<^verbatim>\<open>16.0f\<close>, the product multiplied by \<open>f0\<close>, and
  the result cast to \<^verbatim>\<open>int\<close>.
\<close>

definition voicing_index :: "'f fpu \<Rightarrow> ('f, 's) ambe_subframe_scheme \<Rightarrow> int \<Rightarrow> int option" where
  "voicing_index u sf i =
     f_to_int u (f_mul u (f_mul u (f_of_int u (i - 1)) (f_lit u 16)) (sf_f0 sf))"

text \<open>The value \<^verbatim>\<open>powf(2.0, sf->Mlog[i-1]) / 6.0f\<close>.\<close>

definition harmonic_magnitude :: "'f fpu \<Rightarrow> ('f, 's) ambe_subframe_scheme \<Rightarrow> int \<Rightarrow> 'f" where
  "harmonic_magnitude u sf i =
     f_div u (f_powf u (f_lit u 2) (sf_Mlog sf ! nat (i - 1))) (f_lit u 6)"

text \<open>
  The body of the loop of \<^verbatim>\<open>ambe_subframe_to_mbelib\<close> at counter \<open>i\<close>:
  \<^verbatim>\<open>
      int j = (int)((i-1) * 16.0f * sf->f0);
      mp->Vl[i] = sf->v_uv[j];
      mp->Ml[i] = powf(2.0, sf->Mlog[i-1]) / 6.0f;
      if (!mp->Vl[i])
          mp->Ml[i] *= unvc;
  \<close>
  The result is \<open>None\<close> when the behaviour is undefined: the cast is, or one of the four
  array accesses \<^verbatim>\<open>v_uv[j]\<close>, \<^verbatim>\<open>Vl[i]\<close>, \<^verbatim>\<open>Mlog[i-1]\<close>, \<^verbatim>\<open>Ml[i]\<close> is outside its
  array.
\<close>

definition subframe_body ::
  "'f fpu \<Rightarrow> ('f, 's) ambe_subframe_scheme \<Rightarrow> 'f \<Rightarrow> int \<Rightarrow> ('f, 'm) mbe_parms_scheme
     \<Rightarrow> ('f, 'm) mbe_parms_scheme option"
where
  "subframe_body u sf unvc i mp =
     (case voicing_index u sf i of
        None \<Rightarrow> None
      | Some j \<Rightarrow>
          if in_array j (sf_v_uv sf) \<and> in_array i (mp_Vl mp)
             \<and> in_array (i - 1) (sf_Mlog sf) \<and> in_array i (mp_Ml mp)
          then
            let mp1 = mp\<lparr>mp_Vl := (mp_Vl mp)[nat i := sf_v_uv sf ! nat j]\<rparr>;
                mp2 = mp1\<lparr>mp_Ml := (mp_Ml mp1)[nat i := harmonic_magnitude u sf i]\<rparr>
            in Some (if mp_Vl mp2 ! nat i = 0
                     then mp2\<lparr>mp_Ml := (mp_Ml mp2)[nat i := f_mul u (mp_Ml mp2 ! nat i) unvc]\<rparr>
                     else mp2)
          else None)"

text \<open>
  \<^verbatim>\<open>for (i=1; i<=mp->L; i++) { ... }\<close>, from counter \<open>i\<close> on. Incrementing the counter
  at \<open>INT_MAX\<close> overflows, which is undefined as well.
\<close>

function subframe_loop ::
  "'f fpu \<Rightarrow> ('f, 's) ambe_subframe_scheme \<Rightarrow> 'f \<Rightarrow> int \<Rightarrow> ('f, 'm) mbe_parms_scheme
     \<Rightarrow> ('f, 'm) mbe_parms_scheme option"
where
  "subframe_loop u sf unvc i mp =
     (if i \<le> mp_L mp then
        (case subframe_body u sf unvc i mp of
           None \<Rightarrow> None
         | Some mp' \<Rightarrow> if i = INT_MAX then None else subframe_loop u sf unvc (i + 1) mp')
      else Some mp)"
  by pat_completeness auto
termination
  by (relation "measure (\<lambda>(u, sf, unvc, i, mp). nat (mp_L mp + 1 - i))")
     (auto simp: subframe_body_def Let_def split: option.splits if_splits)

declare subframe_loop.simps [simp del]

text \<open>
  \<^verbatim>\<open>
  mp->w0 = sf->f0 * (2.0f * (float)M_PI);
  mp->L  = sf->L;
  unvc = 0.2046f / sqrtf(mp->w0);
  \<close>
  and then the loop from 1. The members of \<open>mp\<close> that are not assigned keep what the
  caller's object held. The correction factor \<^verbatim>\<open>0.2046f / sqrtf(w0)\<close> first.
\<close>

definition unvoiced_correction :: "'f fpu \<Rightarrow> 'f \<Rightarrow> 'f" where
  "unvoiced_correction u w0 = f_div u (f_lit u 0.2046) (f_sqrtf u w0)"

definition ambe_subframe_to_mbelib ::
  "'f fpu \<Rightarrow> ('f, 'm) mbe_parms_scheme \<Rightarrow> ('f, 's) ambe_subframe_scheme
     \<Rightarrow> ('f, 'm) mbe_parms_scheme option"
where
  "ambe_subframe_to_mbelib u mp sf =
     (let mp1 = mp\<lparr>mp_w0 := f_mul u (sf_f0 sf) (f_mul u (f_lit u 2) (f_M_PI u))\<rparr>;
          mp2 = mp1\<lparr>mp_L := sf_L sf\<rparr>;
          unvc = unvoiced_correction u (mp_w0 mp2)
      in subframe_loop u sf unvc 1 mp2)"

subsection \<open>Collaborators\<close>

text \<open>
  What \<^verbatim>\<open>ambe.c\<close> calls and does not define. Each function is a parameter. An argument
  passed by pointer is given by the value it points to, and the function returns the new
  values of the objects it may write. What the parameter decoder might write to \<open>rp\<close> or
  to \<^verbatim>\<open>dec->sf_prev\<close> is read by nobody: \<open>rp\<close> is not used again and
  \<^verbatim>\<open>dec->sf_prev\<close> is overwritten by the final copy.
  \<^item> \<^verbatim>\<open>ambe_frame_unpack_raw(&rp, frame)\<close> writes \<open>rp\<close>;
  \<^item> \<^verbatim>\<open>ambe_frame_decode_params(sf, &dec->sf_prev, &rp)\<close> writes \<open>sf[0]\<close>, \<open>sf[1]\<close>;
  \<^item> \<^verbatim>\<open>mbe_spectralAmpEnhance(&mp)\<close> rewrites \<open>mp\<close>;
  \<^item> \<^verbatim>\<open>mbe_synthesizeSpeech(out, &cur, &prev, q)\<close> writes audio from the sample offset
    of \<open>out\<close> on and may rewrite \<open>cur\<close> and \<open>prev\<close>;
  \<^item> \<^verbatim>\<open>mbe_moveMbeParms(&cur, &prev)\<close> gives the new \<open>prev\<close>;
  \<^item> \<^verbatim>\<open>ambe_decode_tone(dec, audio, N, frame)\<close> returns its status and may rewrite the
    decoder and the audio.
  \<open>mp_auto\<close> is whatever the automatic array \<^verbatim>\<open>mbe_parms mp[2]\<close> holds before the
  conversion assigns some of its members, and \<open>fpu\<close> is the float arithmetic of the
  platform.
\<close>

text \<open>
  Modelled from the spec: the declarations of the collaborators are missing, and with them
  what the unpack, parameter-decode and synthesis functions return. The spec (section 7)
  says that the parameter-decode collaborator reports malformed or inconsistent bit
  content and that a failure of a collaborator is a negative error code; the results of
  these three steps therefore start with the status the step reports. The call
  statements in \<^verbatim>\<open>ambe_decode_speech\<close> are expression statements: whatever the callee
  returns is dropped.
\<close>

record ('f, 'rp, 's, 'm, 'd) env =
  ambe_frame_unpack_raw :: "frame \<Rightarrow> int \<times> 'rp"
  ambe_frame_decode_params ::
    "('f, 's) ambe_subframe_scheme \<Rightarrow> 'rp
       \<Rightarrow> int \<times> ('f, 's) ambe_subframe_scheme \<times> ('f, 's) ambe_subframe_scheme"
  mbe_spectralAmpEnhance :: "('f, 'm) mbe_parms_scheme \<Rightarrow> ('f, 'm) mbe_parms_scheme"
  mbe_synthesizeSpeech ::
    "pcm_mem \<Rightarrow> nat \<Rightarrow> ('f, 'm) mbe_parms_scheme \<Rightarrow> ('f, 'm) mbe_parms_scheme \<Rightarrow> int
       \<Rightarrow> int \<times> pcm_mem \<times> ('f, 'm) mbe_parms_scheme \<times> ('f, 'm) mbe_parms_scheme"
  mbe_moveMbeParms ::
    "('f, 'm) mbe_parms_scheme \<Rightarrow> ('f, 'm) mbe_parms_scheme \<Rightarrow> ('f, 'm) mbe_parms_scheme"
  ambe_decode_tone ::
    "('f, 's, 'm, 'd) ambe_decoder_scheme \<Rightarrow> pcm_mem \<Rightarrow> int \<Rightarrow> frame
       \<Rightarrow> int \<times> ('f, 's, 'm, 'd) ambe_decoder_scheme \<times> pcm_mem"
  mp_auto :: "('f, 'm) mbe_parms_scheme \<times> ('f, 'm) mbe_parms_scheme"
  fpu :: "'f fpu"

text \<open>
  The calls a decode makes, in order, each with the values its arguments have at the call
  (for a pointer, the object pointed to; for the output pointer of the synthesis, its
  sample offset from \<open>audio\<close>). This is what a test double on the collaborators records.
\<close>

datatype ('f, 'rp, 's, 'm, 'd) call =
    Unpack_raw frame
  | Decode_params "('f, 's) ambe_subframe_scheme" 'rp
  | SpectralAmpEnhance "('f, 'm) mbe_parms_scheme"
  | SynthesizeSpeech nat "('f, 'm) mbe_parms_scheme" "('f, 'm) mbe_parms_scheme" int
  | MoveMbeParms "('f, 'm) mbe_parms_scheme" "('f, 'm) mbe_parms_scheme"
  | Decode_tone "('f, 's, 'm, 'd) ambe_decoder_scheme" int frame

text \<open>What a decode call leaves when it returns: return value, decoder state, buffer.\<close>

record ('f, 's, 'm, 'd) exit_state =
  ret :: int
  dec_after :: "('f, 's, 'm, 'd) ambe_decoder_scheme"
  audio_after :: pcm_mem

text \<open>
  The result of a decode call: the collaborator calls it made, and the state it returned
  with, or \<open>None\<close> when its behaviour became undefined before it returned. The calls are
  then those made up to that point.
\<close>

record ('f, 'rp, 's, 'm, 'd) outcome =
  calls :: "('f, 'rp, 's, 'm, 'd) call list"
  returned :: "('f, 's, 'm, 'd) exit_state option"

definition return_value :: "('f, 'rp, 's, 'm, 'd) outcome \<Rightarrow> int option" where
  "return_value out = map_option ret (returned out)"

definition final_dec ::
  "('f, 'rp, 's, 'm, 'd) outcome \<Rightarrow> ('f, 's, 'm, 'd) ambe_decoder_scheme option" where
  "final_dec out = map_option dec_after (returned out)"

definition final_audio :: "('f, 'rp, 's, 'm, 'd) outcome \<Rightarrow> pcm_mem option" where
  "final_audio out = map_option audio_after (returned out)"

text \<open>Sample \<open>i\<close> of the buffer after the call has returned.\<close>

definition final_sample :: "('f, 'rp, 's, 'm, 'd) outcome \<Rightarrow> nat \<Rightarrow> 16 word option" where
  "final_sample out i =
     (case returned out of None \<Rightarrow> None | Some x \<Rightarrow> Some (int16_at (audio_after x) i))"

subsection \<open>Speech frames\<close>

text \<open>
  \<^verbatim>\<open>ambe_decode_speech\<close>, statement by statement. \<open>N\<close> and \<open>bad\<close> are parameters of
  the C function that its body never mentions. When a conversion is undefined, the two
  calls before it have been made and nothing is returned.
\<close>

definition ambe_decode_speech ::
  "('f, 'rp, 's, 'm, 'd) env \<Rightarrow> ('f, 's, 'm, 'd) ambe_decoder_scheme \<Rightarrow> pcm_mem \<Rightarrow> int
     \<Rightarrow> frame \<Rightarrow> int \<Rightarrow> ('f, 'rp, 's, 'm, 'd) outcome"
where
  "ambe_decode_speech e dec audio N frame bad =
     (let (st_rp, rp) = ambe_frame_unpack_raw e frame;
          (st_sf, sf0, sf1) = ambe_frame_decode_params e (sf_prev dec) rp
      in case ambe_subframe_to_mbelib (fpu e) (fst (mp_auto e)) sf0 of
           None \<Rightarrow> \<lparr>calls = [Unpack_raw frame, Decode_params (sf_prev dec) rp],
                    returned = None\<rparr>
         | Some mp0 \<Rightarrow>
             (case ambe_subframe_to_mbelib (fpu e) (snd (mp_auto e)) sf1 of
                None \<Rightarrow> \<lparr>calls = [Unpack_raw frame, Decode_params (sf_prev dec) rp],
                         returned = None\<rparr>
              | Some mp1 \<Rightarrow>
                  let mp0e = mbe_spectralAmpEnhance e mp0;
                      mp1e = mbe_spectralAmpEnhance e mp1;
                      (st_a, audio1, mp0s, prev1) =
                         mbe_synthesizeSpeech e audio 0 mp0e (mp_prev dec) 2;
                      (st_b, audio2, mp1s, mp0t) =
                         mbe_synthesizeSpeech e audio1 80 mp1e mp0s 2;
                      prev2 = mbe_moveMbeParms e mp1s prev1
                  in \<lparr>calls = [Unpack_raw frame,
                               Decode_params (sf_prev dec) rp,
                               SpectralAmpEnhance mp0,
                               SpectralAmpEnhance mp1,
                               SynthesizeSpeech 0 mp0e (mp_prev dec) 2,
                               SynthesizeSpeech 80 mp1e mp0s 2,
                               MoveMbeParms mp1s prev1],
                      returned = Some \<lparr>ret = 0,
                                        dec_after = dec\<lparr>mp_prev := prev2, sf_prev := sf1\<rparr>,
                                        audio_after = audio2\<rparr>\<rparr>))"

subsection \<open>Frame dispatch\<close>

text \<open>
  \<^verbatim>\<open>ambe_decode_frame\<close>: a switch over the three frame types. The silence case is
  \<^verbatim>\<open>memset(audio, 0, 160*sizeof(int16_t)); return 0;\<close>. The statement
  \<^verbatim>\<open>return -EINVAL;\<close> after the switch is reached for no value of the enumeration.
\<close>

definition ambe_decode_frame ::
  "('f, 'rp, 's, 'm, 'd) env \<Rightarrow> ('f, 's, 'm, 'd) ambe_decoder_scheme \<Rightarrow> pcm_mem \<Rightarrow> int
     \<Rightarrow> frame \<Rightarrow> int \<Rightarrow> ('f, 'rp, 's, 'm, 'd) outcome"
where
  "ambe_decode_frame e dec audio N frame bad =
     (case ambe_classify_frame frame of
        AMBE_SPEECH \<Rightarrow> ambe_decode_speech e dec audio N frame bad
      | AMBE_SILENCE \<Rightarrow>
          \<lparr>calls = [],
           returned = Some \<lparr>ret = 0, dec_after = dec,
                             audio_after = memset audio 0 (160 * sizeof_int16)\<rparr>\<rparr>
      | AMBE_TONE \<Rightarrow>
          (let (r, dec', audio') = ambe_decode_tone e dec audio N frame
           in \<lparr>calls = [Decode_tone dec N frame],
               returned = Some \<lparr>ret = r, dec_after = dec', audio_after = audio'\<rparr>\<rparr>))"

subsection \<open>Reading the record of calls\<close>

text \<open>The calls to the parameter decoder among the calls made.\<close>

fun decode_params_calls ::
  "('f, 'rp, 's, 'm, 'd) call list \<Rightarrow> ('f, 'rp, 's, 'm, 'd) call list" where
  "decode_params_calls [] = []"
| "decode_params_calls (Decode_params sp rp # cs) = Decode_params sp rp # decode_params_calls cs"
| "decode_params_calls (c # cs) = decode_params_calls cs"

text \<open>
  The \<^verbatim>\<open>int\<close> arguments a call passes by value: the quality setting of a synthesis, the
  sample count of a tone decode. The other calls pass pointers only.
\<close>

fun int_args :: "('f, 'rp, 's, 'm, 'd) call \<Rightarrow> int list" where
  "int_args (SynthesizeSpeech off cur prev q) = [q]"
| "int_args (Decode_tone dec N fr) = [N]"
| "int_args c = []"



subsection \<open>IEEE 754 binary32 arithmetic\<close>

text \<open>
  One float arithmetic, used where a statement is about values: \<^verbatim>\<open>float\<close> as IEEE 754
  single precision, every operation evaluated in that format and rounded to nearest,
  ties to even. A finite value is \<open>Fin x\<close> with \<open>x\<close> its real value (\<open>Fin 0\<close> is \<open>+0\<close>);
  \<open>NegZero\<close> is \<open>-0\<close>.
\<close>

datatype b32 = Fin real | NegZero | PInf | NInf | NaN

definition pow2 :: "int \<Rightarrow> real" where
  "pow2 e = (if 0 \<le> e then 2 ^ nat e else 1 / 2 ^ nat (- e))"

text \<open>Rounding to an integer, to nearest, a tie to the even neighbour.\<close>

definition rhe :: "real \<Rightarrow> int" where
  "rhe q = (let f = \<lfloor>q\<rfloor>; d = q - of_int f
            in if d < 1 / 2 then f else if 1 / 2 < d then f + 1
               else if even f then f else f + 1)"

text \<open>
  The exponent of the binade of \<open>x\<close>, not below that of the smallest normal number; the
  spacing of the format there is 23 binary places finer.
\<close>

definition b32_exponent :: "real \<Rightarrow> int" where
  "b32_exponent x = max \<lfloor>log 2 \<bar>x\<bar>\<rfloor> (- 126)"

definition b32_magnitude :: "real \<Rightarrow> real" where
  "b32_magnitude x =
     (let q = pow2 (b32_exponent x - 23) in of_int (rhe (\<bar>x\<bar> / q)) * q)"

text \<open>A rounded magnitude with its sign: overflow gives an infinity, 0 keeps the sign.\<close>

definition b32_pack :: "bool \<Rightarrow> real \<Rightarrow> b32" where
  "b32_pack neg r =
     (if pow2 128 \<le> r then (if neg then NInf else PInf)
      else if r = 0 then (if neg then NegZero else Fin 0)
      else Fin (if neg then - r else r))"

definition b32_round :: "real \<Rightarrow> b32" where
  "b32_round x = b32_pack (x < 0) (b32_magnitude x)"

definition b32_sign :: "b32 \<Rightarrow> bool" where
  "b32_sign a = (case a of Fin x \<Rightarrow> x < 0 | NegZero \<Rightarrow> True | NInf \<Rightarrow> True | _ \<Rightarrow> False)"

definition b32_val :: "b32 \<Rightarrow> real" where
  "b32_val a = (case a of Fin x \<Rightarrow> x | _ \<Rightarrow> 0)"

definition b32_is_inf :: "b32 \<Rightarrow> bool" where
  "b32_is_inf a = (a = PInf \<or> a = NInf)"

definition b32_is_zero :: "b32 \<Rightarrow> bool" where
  "b32_is_zero a = (a = Fin 0 \<or> a = NegZero)"

definition b32_zero :: "bool \<Rightarrow> b32" where
  "b32_zero neg = (if neg then NegZero else Fin 0)"

definition b32_inf :: "bool \<Rightarrow> b32" where
  "b32_inf neg = (if neg then NInf else PInf)"

definition b32_mul :: "b32 \<Rightarrow> b32 \<Rightarrow> b32" where
  "b32_mul a b =
     (if a = NaN \<or> b = NaN then NaN
      else if b32_is_inf a \<or> b32_is_inf b
        then (if b32_is_zero a \<or> b32_is_zero b then NaN else b32_inf (b32_sign a \<noteq> b32_sign b))
      else if b32_val a * b32_val b = 0 then b32_zero (b32_sign a \<noteq> b32_sign b)
      else b32_round (b32_val a * b32_val b))"

definition b32_div :: "b32 \<Rightarrow> b32 \<Rightarrow> b32" where
  "b32_div a b =
     (if a = NaN \<or> b = NaN then NaN
      else if b32_is_inf a
        then (if b32_is_inf b then NaN else b32_inf (b32_sign a \<noteq> b32_sign b))
      else if b32_is_inf b then b32_zero (b32_sign a \<noteq> b32_sign b)
      else if b32_is_zero b
        then (if b32_is_zero a then NaN else b32_inf (b32_sign a \<noteq> b32_sign b))
      else if b32_is_zero a then b32_zero (b32_sign a \<noteq> b32_sign b)
      else b32_round (b32_val a / b32_val b))"

definition b32_sqrt :: "b32 \<Rightarrow> b32" where
  "b32_sqrt a =
     (case a of
        Fin x \<Rightarrow> if x < 0 then NaN else if x = 0 then Fin 0 else b32_round (sqrt x)
      | NegZero \<Rightarrow> NegZero
      | PInf \<Rightarrow> PInf
      | NInf \<Rightarrow> NaN
      | NaN \<Rightarrow> NaN)"

definition b32_of_int :: "int \<Rightarrow> b32" where
  "b32_of_int n = (if n = 0 then Fin 0 else b32_round (of_int n))"

definition b32_lit :: "real \<Rightarrow> b32" where
  "b32_lit r = (if r = 0 then Fin 0 else b32_round r)"

text \<open>The cast \<^verbatim>\<open>(int)x\<close> drops the fractional part, towards zero.\<close>

definition c_trunc :: "real \<Rightarrow> int" where
  "c_trunc x = (if 0 \<le> x then \<lfloor>x\<rfloor> else \<lceil>x\<rceil>)"

definition b32_to_int :: "b32 \<Rightarrow> int option" where
  "b32_to_int a =
     (case a of
        Fin x \<Rightarrow> if - (2 ^ 31) \<le> c_trunc x \<and> c_trunc x < 2 ^ 31 then Some (c_trunc x) else None
      | NegZero \<Rightarrow> Some 0
      | _ \<Rightarrow> None)"

text \<open>\<^verbatim>\<open>(float)M_PI\<close> is the single \<open>0x40490FDB\<close>.\<close>

definition b32_M_PI :: b32 where
  "b32_M_PI = Fin (13176795 / 4194304)"

text \<open>
  The arithmetic as a whole; \<^verbatim>\<open>powf\<close> is the library's and stays a parameter.
\<close>

definition binary32 :: "(b32 \<Rightarrow> b32 \<Rightarrow> b32) \<Rightarrow> b32 fpu" where
  "binary32 pw =
     \<lparr>f_lit = b32_lit, f_M_PI = b32_M_PI, f_of_int = b32_of_int, f_to_int = b32_to_int,
      f_mul = b32_mul, f_div = b32_div, f_sqrtf = b32_sqrt, f_powf = pw\<rparr>"

text \<open>The comparison \<^verbatim>\<open>0 < a\<close>.\<close>

definition b32_pos :: "b32 \<Rightarrow> bool" where
  "b32_pos a = (case a of Fin x \<Rightarrow> 0 < x | PInf \<Rightarrow> True | _ \<Rightarrow> False)"

text \<open>
  A finite value belongs to the format when rounding leaves it as it is; the other
  values of \<open>b32\<close> all do.
\<close>

definition is_binary32 :: "b32 \<Rightarrow> bool" where
  "is_binary32 a = (case a of Fin x \<Rightarrow> x = 0 \<or> b32_round x = Fin x | _ \<Rightarrow> True)"


subsection \<open>Reading a conversion\<close>

text \<open>The block a conversion yields; the caller's block where it yields none.\<close>

definition converted ::
  "'f fpu \<Rightarrow> ('f, 'm) mbe_parms_scheme \<Rightarrow> ('f, 's) ambe_subframe_scheme
     \<Rightarrow> ('f, 'm) mbe_parms_scheme" where
  "converted u mp sf = (case ambe_subframe_to_mbelib u mp sf of None \<Rightarrow> mp | Some mp' \<Rightarrow> mp')"

text \<open>The voicing flag \<open>Vl[i]\<close> a conversion yields.\<close>

definition converted_Vl ::
  "'f fpu \<Rightarrow> ('f, 'm) mbe_parms_scheme \<Rightarrow> ('f, 's) ambe_subframe_scheme \<Rightarrow> int \<Rightarrow> int option" where
  "converted_Vl u mp sf i =
     (case ambe_subframe_to_mbelib u mp sf of
        None \<Rightarrow> None
      | Some mp' \<Rightarrow> Some (mp_Vl mp' ! nat i))"

subsection \<open>Test doubles\<close>

text \<open>
  Concrete collaborators, decoder state, buffer and frames, on which the theorems below
  are instantiated. The raw parameters of the double are the frame itself; its parameter
  decoder delivers two fixed subframes; enhancement and synthesis leave their arguments
  as they are; \<^verbatim>\<open>mbe_moveMbeParms\<close> copies; \<^verbatim>\<open>powf\<close> returns 1. The arithmetic is
  binary32. The arrays have the sizes 8 (\<open>v_uv\<close>), 56 (\<open>Mlog\<close>) and 57 (\<open>Vl\<close>, \<open>Ml\<close>).
\<close>

definition stub_powf :: "b32 \<Rightarrow> b32 \<Rightarrow> b32" where
  "stub_powf x y = Fin 1"

definition stub_subframe :: "b32 \<Rightarrow> b32 ambe_subframe" where
  "stub_subframe f =
     \<lparr>sf_f0 = f, sf_L = 2, sf_v_uv = [1, 0, 0, 0, 0, 0, 0, 0], sf_Mlog = replicate 56 (Fin 0)\<rparr>"

definition stub_parms :: "b32 mbe_parms" where
  "stub_parms =
     \<lparr>mp_w0 = Fin 1, mp_L = 0, mp_Vl = replicate 57 0, mp_Ml = replicate 57 (Fin 0)\<rparr>"

definition stub_env :: "(b32, frame, unit, unit, unit) env" where
  "stub_env =
     \<lparr>ambe_frame_unpack_raw = (\<lambda>fr. (0, fr)),
      ambe_frame_decode_params =
        (\<lambda>sp rp. (0, stub_subframe (Fin (1 / 8)), stub_subframe (Fin (1 / 16)))),
      mbe_spectralAmpEnhance = (\<lambda>mp. mp),
      mbe_synthesizeSpeech = (\<lambda>audio off cur prev q. (0, audio, cur, prev)),
      mbe_moveMbeParms = (\<lambda>cur prev. cur),
      ambe_decode_tone = (\<lambda>dec audio N fr. (0, dec, audio)),
      mp_auto = (stub_parms, stub_parms),
      fpu = binary32 stub_powf\<rparr>"



definition stub_dec :: "(b32, unit, unit) ambe_decoder" where
  "stub_dec = \<lparr>sf_prev = stub_subframe (Fin (1 / 8)), mp_prev = stub_parms\<rparr>"

text \<open>
  A subframe with seven harmonics whose fundamental frequency is the single
  \<^verbatim>\<open>5.0f/96.0f\<close>, that is \<open>13981013 / 2^28\<close>, and whose band 5 alone is voiced.
\<close>

definition rounding_subframe :: "b32 ambe_subframe" where
  "rounding_subframe =
     \<lparr>sf_f0 = Fin (13981013 / 268435456), sf_L = 7,
      sf_v_uv = [0, 0, 0, 0, 0, 1, 0, 0], sf_Mlog = replicate 56 (Fin 0)\<rparr>"

text \<open>A buffer in which every byte is 1, so that every sample reads \<open>0x0101\<close>.\<close>

definition stub_audio :: pcm_mem where
  "stub_audio = (\<lambda>a. 1)"

definition speech_frame :: frame where
  "speech_frame = 0x00 # replicate 9 0"

definition silence_frame :: frame where
  "silence_frame = 0xf8 # replicate 9 0"

section \<open>Properties\<close>

subsection \<open>Helper facts: bytes and the buffer\<close>

lemma all_below_8:
  "(\<forall>n<8. P (n::nat)) = (P 0 \<and> P 1 \<and> P 2 \<and> P 3 \<and> P 4 \<and> P 5 \<and> P 6 \<and> P 7)"
proof -
  have "{..<8::nat} = {0, 1, 2, 3, 4, 5, 6, 7}" by auto
  then have "(\<forall>n<8. P n) = (\<forall>n\<in>{0, 1, 2, 3, 4, 5, 6, 7}. P n)" by (metis lessThan_iff)
  then show ?thesis by simp
qed

lemma byte_eq_iff: "((x::8 word) = y) = (\<forall>n<8. bit x n = bit y n)"
  by (auto intro: bit_word_eqI)

lemma sel_tone_iff: "((b::8 word) AND 0xfc = 0xfc) = (drop_bit 2 b = 0x3f)"
  apply (simp only: byte_eq_iff all_below_8 bit_drop_bit_eq bit_and_iff)
  apply (simp add: bit_drop_bit_eq)
  apply (auto dest: bit_imp_le_length)
  done

lemma sel_silence_iff: "((b::8 word) AND 0xfc = 0xf8) = (drop_bit 2 b = 0x3e)"
  apply (simp only: byte_eq_iff all_below_8 bit_drop_bit_eq bit_and_iff)
  apply (simp add: bit_drop_bit_eq)
  apply (auto dest: bit_imp_le_length)
  done

lemma classify_speech_frame: "ambe_classify_frame speech_frame = AMBE_SPEECH"
  by (simp add: ambe_classify_frame_def speech_frame_def)

lemma classify_silence_frame: "ambe_classify_frame silence_frame = AMBE_SILENCE"
  by (simp add: ambe_classify_frame_def silence_frame_def)

lemma memset_below: "a < n \<Longrightarrow> memset p c n a = c"
  by (simp add: memset_def)

lemma memset_above: "n \<le> a \<Longrightarrow> memset p c n a = p a"
  by (simp add: memset_def)

lemma int16_at_memset_0: "2 * i + 1 < n \<Longrightarrow> int16_at (memset p 0 n) i = 0"
  by (simp add: int16_at_def memset_def word_cat_eq)

lemma int16_at_eqI:
  "p (2 * i) = q (2 * i) \<Longrightarrow> p (2 * i + 1) = q (2 * i + 1) \<Longrightarrow> int16_at p i = int16_at q i"
  by (simp add: int16_at_def)

lemma int16_at_stub_audio: "int16_at stub_audio i = 257"
  by (simp add: int16_at_def stub_audio_def word_cat_eq)

lemma dtx_size:
  assumes "0 \<le> N" "N < 2 ^ 62"
  shows "unat (word_of_nat sizeof_int16 * size_t_of_int N) = 2 * nat N"
proof -
  have e: "word_of_nat sizeof_int16 * size_t_of_int N = (word_of_int (2 * N) :: 64 word)"
    by (simp add: sizeof_int16_def size_t_of_int_def)
  have "(2::int) ^ 62 * 2 < 2 ^ 64" by simp
  with assms have b: "2 * N < 2 ^ 64" by linarith
  have t: "take_bit 64 (2 * N) = 2 * N"
    using assms b by (intro take_bit_int_eq_self) auto
  have "unat (word_of_int (2 * N) :: 64 word) = nat (take_bit 64 (2 * N))"
    by (simp only: unat_eq_nat_uint uint_word_of_int_eq len_bit0 len_num1
          mult_numeral_left_semiring_numeral mult_1_right semiring_norm)
  also have "\<dots> = nat (2 * N)" by (simp only: t)
  finally have "unat (word_of_int (2 * N) :: 64 word) = nat (2 * N)" .
  then show ?thesis using assms unfolding e by (simp add: nat_mult_distrib)
qed

subsection \<open>Helper facts: the conversion loop\<close>

lemma in_array_nat: "in_array k xs \<Longrightarrow> nat k < length xs"
  by (simp add: in_array_def nat_less_iff)

lemma subframe_body_Some:
  assumes "subframe_body u sf unvc i mp = Some mp'"
  shows "\<exists>j. voicing_index u sf i = Some j \<and> in_array j (sf_v_uv sf)
           \<and> in_array i (mp_Vl mp) \<and> in_array (i - 1) (sf_Mlog sf) \<and> in_array i (mp_Ml mp)
           \<and> mp' = mp\<lparr>mp_Vl := (mp_Vl mp)[nat i := sf_v_uv sf ! nat j],
                       mp_Ml := (mp_Ml mp)[nat i :=
                          (if sf_v_uv sf ! nat j = 0
                           then f_mul u (harmonic_magnitude u sf i) unvc
                           else harmonic_magnitude u sf i)]\<rparr>"
  using assms
  by (auto simp: subframe_body_def Let_def in_array_def split: option.splits if_splits)

lemma subframe_body_defined:
  assumes "voicing_index u sf i = Some j" "in_array j (sf_v_uv sf)" "in_array i (mp_Vl mp)"
    "in_array (i - 1) (sf_Mlog sf)" "in_array i (mp_Ml mp)"
  shows "subframe_body u sf unvc i mp =
           Some (mp\<lparr>mp_Vl := (mp_Vl mp)[nat i := sf_v_uv sf ! nat j],
                     mp_Ml := (mp_Ml mp)[nat i :=
                        (if sf_v_uv sf ! nat j = 0
                         then f_mul u (harmonic_magnitude u sf i) unvc
                         else harmonic_magnitude u sf i)]\<rparr>)"
  using assms
  by (auto simp: subframe_body_def Let_def in_array_def)

lemma subframe_body_fixed:
  assumes "subframe_body u sf unvc i mp = Some mp'"
  shows "mp_L mp' = mp_L mp" "mp_w0 mp' = mp_w0 mp" "mbe_parms.more mp' = mbe_parms.more mp"
    "length (mp_Vl mp') = length (mp_Vl mp)" "length (mp_Ml mp') = length (mp_Ml mp)"
  using subframe_body_Some [OF assms] by auto

lemma subframe_loop_step:
  "i \<le> mp_L mp \<Longrightarrow> subframe_body u sf unvc i mp = Some mp1 \<Longrightarrow> i \<noteq> INT_MAX \<Longrightarrow>
     subframe_loop u sf unvc i mp = subframe_loop u sf unvc (i + 1) mp1"
  by (simp add: subframe_loop.simps)

lemma subframe_loop_Some_step:
  assumes "subframe_loop u sf unvc i mp = Some mp'" "i \<le> mp_L mp"
  shows "\<exists>mp1. subframe_body u sf unvc i mp = Some mp1 \<and> i \<noteq> INT_MAX
            \<and> subframe_loop u sf unvc (i + 1) mp1 = Some mp'"
  using assms by (subst (asm) subframe_loop.simps) (auto split: option.splits if_splits)

lemma subframe_loop_done:
  "\<not> i \<le> mp_L mp \<Longrightarrow> subframe_loop u sf unvc i mp = Some mp"
  by (simp add: subframe_loop.simps)

lemma subframe_loop_fixed:
  "subframe_loop u sf unvc i mp = Some mp' \<Longrightarrow>
     mp_L mp' = mp_L mp \<and> mp_w0 mp' = mp_w0 mp \<and> mbe_parms.more mp' = mbe_parms.more mp
     \<and> length (mp_Vl mp') = length (mp_Vl mp) \<and> length (mp_Ml mp') = length (mp_Ml mp)"
proof (induction u sf unvc i mp rule: subframe_loop.induct)
  case (1 u sf unvc i mp)
  show ?case
  proof (cases "i \<le> mp_L mp")
    case True
    from subframe_loop_Some_step [OF "1.prems" True] obtain mp1 where
      b: "subframe_body u sf unvc i mp = Some mp1" and n: "i \<noteq> INT_MAX"
      and l: "subframe_loop u sf unvc (i + 1) mp1 = Some mp'" by blast
    from "1.IH" [OF True b n l] subframe_body_fixed [OF b] show ?thesis by simp
  next
    case False
    with "1.prems" show ?thesis by (simp add: subframe_loop_done)
  qed
qed

lemma subframe_loop_below:
  "subframe_loop u sf unvc i mp = Some mp' \<Longrightarrow> 0 \<le> k \<Longrightarrow> k < i \<Longrightarrow>
     mp_Vl mp' ! nat k = mp_Vl mp ! nat k \<and> mp_Ml mp' ! nat k = mp_Ml mp ! nat k"
proof (induction u sf unvc i mp rule: subframe_loop.induct)
  case (1 u sf unvc i mp)
  show ?case
  proof (cases "i \<le> mp_L mp")
    case True
    from subframe_loop_Some_step [OF "1.prems"(1) True] obtain mp1 where
      b: "subframe_body u sf unvc i mp = Some mp1" and n: "i \<noteq> INT_MAX"
      and l: "subframe_loop u sf unvc (i + 1) mp1 = Some mp'" by blast
    have "k < i + 1" using "1.prems" by simp
    from "1.IH" [OF True b n l "1.prems"(2) this]
    have "mp_Vl mp' ! nat k = mp_Vl mp1 ! nat k \<and> mp_Ml mp' ! nat k = mp_Ml mp1 ! nat k" .
    moreover have "nat k \<noteq> nat i" using "1.prems" by simp
    ultimately show ?thesis using subframe_body_Some [OF b] by auto
  next
    case False
    with "1.prems" show ?thesis by (simp add: subframe_loop_done)
  qed
qed

lemma subframe_loop_range:
  "subframe_loop u sf unvc i mp = Some mp' \<Longrightarrow> 0 \<le> i \<Longrightarrow> i \<le> k \<Longrightarrow> k \<le> mp_L mp \<Longrightarrow>
     (\<exists>j. voicing_index u sf k = Some j \<and> in_array j (sf_v_uv sf)
        \<and> mp_Vl mp' ! nat k = sf_v_uv sf ! nat j
        \<and> mp_Ml mp' ! nat k =
            (if sf_v_uv sf ! nat j = 0
             then f_mul u (harmonic_magnitude u sf k) unvc
             else harmonic_magnitude u sf k))"
proof (induction u sf unvc i mp rule: subframe_loop.induct)
  case (1 u sf unvc i mp)
  from "1.prems" have run: "i \<le> mp_L mp" by simp
  from subframe_loop_Some_step [OF "1.prems"(1) run] obtain mp1 where
    b: "subframe_body u sf unvc i mp = Some mp1" and n: "i \<noteq> INT_MAX"
    and l: "subframe_loop u sf unvc (i + 1) mp1 = Some mp'" by blast
  from subframe_body_Some [OF b] obtain j where
    j: "voicing_index u sf i = Some j" "in_array j (sf_v_uv sf)"
       "in_array i (mp_Vl mp)" "in_array i (mp_Ml mp)"
    and mp1: "mp1 = mp\<lparr>mp_Vl := (mp_Vl mp)[nat i := sf_v_uv sf ! nat j],
                       mp_Ml := (mp_Ml mp)[nat i :=
                          (if sf_v_uv sf ! nat j = 0
                           then f_mul u (harmonic_magnitude u sf i) unvc
                           else harmonic_magnitude u sf i)]\<rparr>" by blast
  show ?case
  proof (cases "k = i")
    case True
    have "k < i + 1" "0 \<le> k" using True "1.prems" by simp_all
    from subframe_loop_below [OF l this(2) this(1)]
    have "mp_Vl mp' ! nat k = mp_Vl mp1 ! nat k \<and> mp_Ml mp' ! nat k = mp_Ml mp1 ! nat k" .
    moreover have "nat i < length (mp_Vl mp)" "nat i < length (mp_Ml mp)"
      using j(3,4) by (simp_all add: in_array_nat)
    ultimately show ?thesis using True j(1,2) by (simp add: mp1)
  next
    case False
    with "1.prems" have "i + 1 \<le> k" "0 \<le> i + 1" by simp_all
    moreover have "k \<le> mp_L mp1" using "1.prems" subframe_body_fixed(1) [OF b] by simp
    ultimately show ?thesis using "1.IH" [OF run b n l] by blast
  qed
qed

lemma subframe_loop_defined:
  "\<forall>k. i \<le> k \<and> k \<le> mp_L mp \<longrightarrow>
       (case voicing_index u sf k of None \<Rightarrow> False | Some j \<Rightarrow> in_array j (sf_v_uv sf)) \<Longrightarrow>
   1 \<le> i \<Longrightarrow> mp_L mp < INT_MAX \<Longrightarrow> mp_L mp < int (length (mp_Vl mp)) \<Longrightarrow>
   mp_L mp < int (length (mp_Ml mp)) \<Longrightarrow> mp_L mp \<le> int (length (sf_Mlog sf)) \<Longrightarrow>
   subframe_loop u sf unvc i mp \<noteq> None"
proof (induction u sf unvc i mp rule: subframe_loop.induct)
  case (1 u sf unvc i mp)
  show ?case
  proof (cases "i \<le> mp_L mp")
    case True
    with "1.prems"(1) obtain j where j: "voicing_index u sf i = Some j" "in_array j (sf_v_uv sf)"
      by (auto split: option.splits)
    have arr: "in_array i (mp_Vl mp)" "in_array (i - 1) (sf_Mlog sf)" "in_array i (mp_Ml mp)"
      using True "1.prems" by (simp_all add: in_array_def)
    define mp1 where "mp1 = mp\<lparr>mp_Vl := (mp_Vl mp)[nat i := sf_v_uv sf ! nat j],
                     mp_Ml := (mp_Ml mp)[nat i :=
                        (if sf_v_uv sf ! nat j = 0
                         then f_mul u (harmonic_magnitude u sf i) unvc
                         else harmonic_magnitude u sf i)]\<rparr>"
    have b: "subframe_body u sf unvc i mp = Some mp1"
      unfolding mp1_def by (rule subframe_body_defined [OF j arr])
    have n: "i \<noteq> INT_MAX" using True "1.prems" by simp
    have "subframe_loop u sf unvc (i + 1) mp1 \<noteq> None"
      using "1.prems" by (intro "1.IH" [OF True b n]) (simp_all add: mp1_def)
    then show ?thesis by (simp add: subframe_loop_step [OF True b n])
  next
    case False
    then show ?thesis by (simp add: subframe_loop_done)
  qed
qed

subsection \<open>Helper facts: binary32 rounding\<close>

lemma pow2_pos: "0 < pow2 e" by (simp add: pow2_def)

lemma pow2_powr: "pow2 e = 2 powr of_int e"
  by (simp add: pow2_def powr_realpow[symmetric] powr_minus divide_inverse)

lemma pow2_add: "pow2 (a + b) = pow2 a * pow2 b"
  by (simp add: pow2_powr powr_add)

lemma pow2_mono: "a \<le> b \<Longrightarrow> pow2 a \<le> pow2 b"
  by (simp add: pow2_powr)

lemma floor_log2_eq:
  assumes "pow2 e \<le> x" "x < pow2 (e + 1)"
  shows "\<lfloor>log 2 x\<rfloor> = e"
proof -
  have x: "0 < x" using assms(1) pow2_pos [of e] by linarith
  have "of_int e \<le> log 2 x"
    using assms(1) x by (simp add: pow2_powr le_log_iff)
  moreover have "log 2 x < of_int e + 1"
    using assms(2) x by (simp add: pow2_powr log_less_iff add.commute)
  ultimately show ?thesis by linarith
qed

lemma pow2_floor_log2_le: "0 < x \<Longrightarrow> pow2 \<lfloor>log 2 x\<rfloor> \<le> x"
proof -
  assume x: "0 < x"
  have "of_int \<lfloor>log 2 x\<rfloor> \<le> log 2 x" by simp
  then have "2 powr of_int \<lfloor>log 2 x\<rfloor> \<le> 2 powr log 2 x" by (simp only: powr_le_cancel_iff) 
  then show ?thesis using x by (simp add: pow2_powr)
qed

lemma rhe_ge_floor: "\<lfloor>q\<rfloor> \<le> rhe q"
  by (simp add: rhe_def Let_def)

lemma rhe_of_int: "rhe (of_int k) = k"
  by (simp add: rhe_def Let_def)

lemma rhe_le: "of_int (rhe q) \<le> q + 1"
proof -
  have "of_int \<lfloor>q\<rfloor> \<le> q" by simp
  then show ?thesis by (simp add: rhe_def Let_def) linarith
qed

lemma b32_exponent_eq:
  assumes "pow2 e \<le> \<bar>x\<bar>" "\<bar>x\<bar> < pow2 (e + 1)" "- 126 \<le> e"
  shows "b32_exponent x = e"
  using floor_log2_eq [OF assms(1,2)] assms(3) by (simp add: b32_exponent_def)

lemma pow2_diff: "pow2 a / pow2 b = pow2 (a - b)"
  using pow2_add [of "a - b" b] pow2_pos [of b] by (simp add: field_simps)

lemma b32_round_eval:
  assumes "pow2 e \<le> \<bar>x\<bar>" "\<bar>x\<bar> < pow2 (e + 1)" "- 126 \<le> e" "e \<le> 126"
  shows "b32_round x =
           Fin ((if x < 0 then - 1 else 1) * (of_int (rhe (\<bar>x\<bar> / pow2 (e - 23))) * pow2 (e - 23)))"
proof -
  let ?q = "pow2 (e - 23)"
  let ?m = "rhe (\<bar>x\<bar> / ?q)"
  have q: "0 < ?q" by (rule pow2_pos)
  have ex: "b32_exponent x = e" by (rule b32_exponent_eq [OF assms(1-3)])
  have lo: "pow2 23 \<le> \<bar>x\<bar> / ?q"
  proof -
    have "pow2 23 = pow2 e / ?q" by (simp add: pow2_diff)
    also have "\<dots> \<le> \<bar>x\<bar> / ?q" using assms(1) q by (simp add: divide_right_mono)
    finally show ?thesis .
  qed
  have hi: "\<bar>x\<bar> / ?q < pow2 24"
  proof -
    have "\<bar>x\<bar> / ?q < pow2 (e + 1) / ?q" using assms(2) q by (simp add: divide_strict_right_mono)
    also have "\<dots> = pow2 24" by (simp add: pow2_diff)
    finally show ?thesis .
  qed
  have "(2::real) ^ 23 \<le> of_int \<lfloor>\<bar>x\<bar> / ?q\<rfloor>"
  proof -
    have "(2::int) ^ 23 \<le> \<lfloor>\<bar>x\<bar> / ?q\<rfloor>"
      using lo by (simp add: le_floor_iff pow2_def)
    then show ?thesis by (metis of_int_le_iff of_int_numeral of_int_power)
  qed
  moreover have "of_int \<lfloor>\<bar>x\<bar> / ?q\<rfloor> \<le> (of_int ?m :: real)"
    using rhe_ge_floor [of "\<bar>x\<bar> / ?q"] by simp
  ultimately have mlo: "(2::real) ^ 23 \<le> of_int ?m" by linarith
  have "of_int ?m < pow2 24 + 1" using rhe_le [of "\<bar>x\<bar> / ?q"] hi by linarith
  then have "(of_int ?m :: real) < of_int (2 ^ 24 + 1)" by (simp add: pow2_def)
  then have "?m < 2 ^ 24 + 1" by (simp only: of_int_less_iff)
  then have "?m \<le> 2 ^ 24" by simp
  then have "(of_int ?m :: real) \<le> of_int (2 ^ 24)" by (simp only: of_int_le_iff)
  then have mhi: "(of_int ?m :: real) \<le> pow2 24" by (simp add: pow2_def)
  have rpos: "0 < of_int ?m * ?q" using mlo q by (simp add: zero_less_mult_iff) 
  have "of_int ?m * ?q \<le> pow2 24 * ?q" using mhi q by (simp add: mult_right_mono)
  also have "\<dots> = pow2 (e + 1)" using pow2_add [of 24 "e - 23"] by (simp add: add.commute)
  also have "\<dots> \<le> pow2 127" using assms(4) by (intro pow2_mono) simp
  also have "\<dots> < pow2 128" by (simp add: pow2_def)
  finally have rhi: "of_int ?m * ?q < pow2 128" .
  define r where "r = of_int ?m * ?q"
  have "b32_magnitude x = r" by (simp only: b32_magnitude_def ex Let_def r_def)
  moreover have "0 < r" "r < pow2 128" using rpos rhi by (simp_all only: r_def)
  ultimately have "b32_round x = Fin (if x < 0 then - r else r)"
    by (simp add: b32_round_def b32_pack_def)
  then show ?thesis by (simp add: r_def)
qed















lemma pow2_floor_log2_gt: "0 < x \<Longrightarrow> x < pow2 (\<lfloor>log 2 x\<rfloor> + 1)"
proof -
  assume x: "0 < x"
  have "log 2 x < of_int (\<lfloor>log 2 x\<rfloor> + 1)" by linarith
  then have "2 powr log 2 x < 2 powr of_int (\<lfloor>log 2 x\<rfloor> + 1)" by (simp only: powr_less_cancel_iff)
  then show ?thesis using x by (simp add: pow2_powr)
qed

lemma b32_round_int:
  assumes "0 < n" "n < 2 ^ 24"
  shows "b32_round (of_int n) = Fin (of_int n)"
proof -
  define x :: real where "x = of_int n"
  define e where "e = \<lfloor>log 2 x\<rfloor>"
  have x: "0 < x" "1 \<le> x" "x < pow2 24" using assms by (simp_all add: x_def pow2_def)
  have lo: "pow2 e \<le> \<bar>x\<bar>" using pow2_floor_log2_le [OF x(1)] x(1) by (simp add: e_def)
  have hi: "\<bar>x\<bar> < pow2 (e + 1)" using pow2_floor_log2_gt [OF x(1)] x(1) by (simp add: e_def)
  have e0: "0 \<le> e" using x(2) by (simp add: e_def le_log_iff zero_le_floor)
  have e23: "e \<le> 23"
  proof (rule ccontr)
    assume "\<not> e \<le> 23"
    then have "24 \<le> e" by simp
    then have "pow2 24 \<le> pow2 e" by (rule pow2_mono)
    with lo x show False by simp
  qed
  have q: "pow2 (e - 23) = 1 / 2 ^ nat (23 - e)" using e23
    by (cases "e = 23") (simp_all add: pow2_def)
  have "\<bar>x\<bar> / pow2 (e - 23) = of_int (n * 2 ^ nat (23 - e))"
    using x(1) by (simp add: q x_def)
  then have "rhe (\<bar>x\<bar> / pow2 (e - 23)) = n * 2 ^ nat (23 - e)" by (simp only: rhe_of_int)
  then have "of_int (rhe (\<bar>x\<bar> / pow2 (e - 23))) * pow2 (e - 23) = x"
    by (simp add: q x_def)
  moreover have "- 126 \<le> e" "e \<le> 126" using e0 e23 by simp_all
  ultimately show ?thesis
    using b32_round_eval [OF lo hi] x(1) by (simp add: x_def)
qed

subsection \<open>Helper facts: the conversion\<close>

lemma to_mbelib_Some:
  assumes "ambe_subframe_to_mbelib u mp sf = Some mp'"
  shows "mp_w0 mp' = f_mul u (sf_f0 sf) (f_mul u (f_lit u 2) (f_M_PI u))"
    and "mp_L mp' = sf_L sf"
    and "mbe_parms.more mp' = mbe_parms.more mp"
    and "length (mp_Vl mp') = length (mp_Vl mp)"
    and "length (mp_Ml mp') = length (mp_Ml mp)"
  using subframe_loop_fixed [OF assms [unfolded ambe_subframe_to_mbelib_def Let_def]]
  by simp_all

lemma to_mbelib_harmonic:
  assumes "ambe_subframe_to_mbelib u mp sf = Some mp'" "1 \<le> i" "i \<le> sf_L sf"
  shows "\<exists>j. voicing_index u sf i = Some j \<and> in_array j (sf_v_uv sf)
        \<and> mp_Vl mp' ! nat i = sf_v_uv sf ! nat j
        \<and> mp_Ml mp' ! nat i =
            (if sf_v_uv sf ! nat j = 0
             then f_mul u (harmonic_magnitude u sf i) (unvoiced_correction u (mp_w0 mp'))
             else harmonic_magnitude u sf i)"
proof -
  let ?mp2 = "mp\<lparr>mp_w0 := f_mul u (sf_f0 sf) (f_mul u (f_lit u 2) (f_M_PI u)), mp_L := sf_L sf\<rparr>"
  have w: "mp_w0 mp' = mp_w0 ?mp2" using to_mbelib_Some(1) [OF assms(1)] by simp
  have l: "subframe_loop u sf (unvoiced_correction u (mp_w0 ?mp2)) 1 ?mp2 = Some mp'"
    using assms(1) by (simp add: ambe_subframe_to_mbelib_def Let_def)
  have "i \<le> mp_L ?mp2" using assms(3) by simp
  from subframe_loop_range [OF l _ assms(2) this] show ?thesis
    unfolding w by simp
qed

lemma to_mbelib_defined:
  assumes "\<forall>k. 1 \<le> k \<and> k \<le> sf_L sf \<longrightarrow>
       (case voicing_index u sf k of None \<Rightarrow> False | Some j \<Rightarrow> in_array j (sf_v_uv sf))"
    and "sf_L sf < INT_MAX" "sf_L sf < int (length (mp_Vl mp))"
    and "sf_L sf < int (length (mp_Ml mp))" "sf_L sf \<le> int (length (sf_Mlog sf))"
  shows "ambe_subframe_to_mbelib u mp sf = Some (converted u mp sf)"
proof -
  have "ambe_subframe_to_mbelib u mp sf \<noteq> None"
    unfolding ambe_subframe_to_mbelib_def Let_def
    using assms by (intro subframe_loop_defined) simp_all
  then show ?thesis by (auto simp: converted_def)
qed

subsection \<open>Helper facts: evaluation in binary32\<close>

lemma binary32_sel:
  "f_lit (binary32 pw) = b32_lit" "f_M_PI (binary32 pw) = b32_M_PI"
  "f_of_int (binary32 pw) = b32_of_int" "f_to_int (binary32 pw) = b32_to_int"
  "f_mul (binary32 pw) = b32_mul" "f_div (binary32 pw) = b32_div"
  "f_sqrtf (binary32 pw) = b32_sqrt" "f_powf (binary32 pw) = pw"
  by (simp_all add: binary32_def)

lemma b32_round_numeral:
  "numeral k < (2::int) ^ 24 \<Longrightarrow> b32_round (numeral k) = Fin (numeral k)"
  using b32_round_int [of "numeral k"] by simp

lemma b32_round_1: "b32_round 1 = Fin 1"
  using b32_round_int [of 1] by simp

lemma b32_lit_numeral: "numeral k < (2::int) ^ 24 \<Longrightarrow> b32_lit (numeral k) = Fin (numeral k)"
  by (simp add: b32_lit_def b32_round_numeral)

lemma b32_of_int_small:
  "b32_of_int 0 = Fin 0" "b32_of_int 1 = Fin 1"
  "numeral k < (2::int) ^ 24 \<Longrightarrow> b32_of_int (numeral k) = Fin (numeral k)"
  by (simp_all add: b32_of_int_def b32_round_numeral b32_round_1)

lemma b32_mul_Fin:
  "0 \<le> x \<Longrightarrow> 0 \<le> y \<Longrightarrow>
     b32_mul (Fin x) (Fin y) = (if x * y = 0 then Fin 0 else b32_round (x * y))"
  by (simp add: b32_mul_def b32_is_inf_def b32_val_def b32_zero_def b32_sign_def)

lemma b32_to_int_Fin_numeral:
  "numeral k < (2::int) ^ 31 \<Longrightarrow> b32_to_int (Fin (numeral k)) = Some (numeral k)"
  "b32_to_int (Fin 0) = Some 0" "b32_to_int (Fin 1) = Some 1"
  by (simp_all add: b32_to_int_def c_trunc_def)


lemma stub_subframe_sel:
  "sf_f0 (stub_subframe f) = f"
  "sf_L (stub_subframe f) = 2"
  "sf_v_uv (stub_subframe f) = [1, 0, 0, 0, 0, 0, 0, 0]"
  "sf_Mlog (stub_subframe f) = replicate 56 (Fin 0)"
  by (simp_all add: stub_subframe_def)

lemma voicing_index_first:
  "voicing_index (binary32 pw) sf 1 = b32_to_int (b32_mul (Fin 0) (sf_f0 sf))"
  by (simp add: voicing_index_def binary32_sel b32_of_int_small b32_lit_numeral b32_mul_Fin)

lemma voicing_index_stub_eighth:
  "voicing_index (binary32 pw) (stub_subframe (Fin (1 / 8))) 1 = Some 0"
  "voicing_index (binary32 pw) (stub_subframe (Fin (1 / 8))) 2 = Some 2"
  by (simp_all add: voicing_index_def binary32_sel stub_subframe_sel b32_of_int_small
        b32_lit_numeral b32_mul_Fin b32_round_numeral b32_to_int_Fin_numeral)



lemma two_cases: "1 \<le> k \<and> k \<le> (2::int) \<Longrightarrow> k = 1 \<or> k = 2"
  by auto



subsection \<open>Helper facts: the dispatch\<close>

lemma decode_frame_silence:
  "ambe_classify_frame frame = AMBE_SILENCE \<Longrightarrow>
     ambe_decode_frame e dec audio N frame bad =
       \<lparr>calls = [],
        returned = Some \<lparr>ret = 0, dec_after = dec, audio_after = memset audio 0 (2 * 160)\<rparr>\<rparr>"
  by (simp add: ambe_decode_frame_def sizeof_int16_def)

lemma decode_frame_speech:
  "ambe_classify_frame frame = AMBE_SPEECH \<Longrightarrow>
     ambe_decode_frame e dec audio N frame bad = ambe_decode_speech e dec audio N frame bad"
  by (simp add: ambe_decode_frame_def)

subsection \<open>Helper facts: the speech path and the test doubles\<close>



lemma decode_speech_param_calls:
  "decode_params_calls (calls (ambe_decode_speech e dec audio N frame bad)) =
     [Decode_params (sf_prev dec) (snd (ambe_frame_unpack_raw e frame))]"
  by (simp add: ambe_decode_speech_def Let_def split_beta split: option.splits)


lemma stub_env_sel:
  "ambe_frame_unpack_raw stub_env fr = (0, fr)"
  "ambe_frame_decode_params stub_env sp rp
     = (0, stub_subframe (Fin (1 / 8)), stub_subframe (Fin (1 / 16)))"
  "mbe_spectralAmpEnhance stub_env mp = mp"
  "mbe_synthesizeSpeech stub_env audio off cur prev q = (0, audio, cur, prev)"
  "mbe_moveMbeParms stub_env cur prev = cur"
  "ambe_decode_tone stub_env dec audio N fr = (0, dec, audio)"
  "mp_auto stub_env = (stub_parms, stub_parms)"
  "fpu stub_env = binary32 stub_powf"
  by (simp_all add: stub_env_def)












lemma rounding_subframe_sel:
  "sf_f0 rounding_subframe = Fin (13981013 / 268435456)"
  "sf_L rounding_subframe = 7"
  "sf_v_uv rounding_subframe = [0, 0, 0, 0, 0, 1, 0, 0]"
  "sf_Mlog rounding_subframe = replicate 56 (Fin 0)"
  by (simp_all add: rounding_subframe_def)

text \<open>The six products \<open>(i - 1) * 16 * f0\<close> of the subframe, rounded.\<close>

lemma rounding_products:
  "b32_round (13981013 / 16777216) = Fin (13981013 / 16777216)"
  "b32_round (13981013 / 8388608) = Fin (13981013 / 8388608)"
  "b32_round (41943039 / 16777216) = Fin (5 / 2)"
  "b32_round (13981013 / 4194304) = Fin (13981013 / 4194304)"
  "b32_round (69905065 / 16777216) = Fin (8738133 / 2097152)"
  "b32_round (41943039 / 8388608) = Fin 5"
proof -
  show "b32_round (13981013 / 16777216) = Fin (13981013 / 16777216)"
    by (subst b32_round_eval [where e = "- 1"]) (simp_all add: pow2_def rhe_def Let_def)
  show "b32_round (13981013 / 8388608) = Fin (13981013 / 8388608)"
    by (subst b32_round_eval [where e = 0]) (simp_all add: pow2_def rhe_def Let_def)
  show "b32_round (41943039 / 16777216) = Fin (5 / 2)"
    by (subst b32_round_eval [where e = 1]) (simp_all add: pow2_def rhe_def Let_def)
  show "b32_round (13981013 / 4194304) = Fin (13981013 / 4194304)"
    by (subst b32_round_eval [where e = 1]) (simp_all add: pow2_def rhe_def Let_def)
  show "b32_round (69905065 / 16777216) = Fin (8738133 / 2097152)"
    by (subst b32_round_eval [where e = 2]) (simp_all add: pow2_def rhe_def Let_def)
  show "b32_round (41943039 / 8388608) = Fin 5"
    by (subst b32_round_eval [where e = 2]) (simp_all add: pow2_def rhe_def Let_def)
qed

lemma is_binary32_rounding_f0: "is_binary32 (Fin (13981013 / 268435456))"
proof -
  have "b32_round (13981013 / 268435456) = Fin (13981013 / 268435456)"
    by (subst b32_round_eval [where e = "- 5"]) (simp_all add: pow2_def rhe_def Let_def)
  then show ?thesis by (simp add: is_binary32_def)
qed

lemma voicing_index_rounding:
  "voicing_index (binary32 pw) rounding_subframe 1 = Some 0"
  "voicing_index (binary32 pw) rounding_subframe 2 = Some 0"
  "voicing_index (binary32 pw) rounding_subframe 3 = Some 1"
  "voicing_index (binary32 pw) rounding_subframe 4 = Some 2"
  "voicing_index (binary32 pw) rounding_subframe 5 = Some 3"
  "voicing_index (binary32 pw) rounding_subframe 6 = Some 4"
  "voicing_index (binary32 pw) rounding_subframe 7 = Some 5"
  by (simp_all add: voicing_index_def binary32_sel rounding_subframe_sel b32_of_int_small
        b32_lit_numeral b32_mul_Fin b32_round_numeral b32_round_1 rounding_products
        b32_to_int_def c_trunc_def)

lemma seven_cases:
  "1 \<le> k \<and> k \<le> (7::int) \<Longrightarrow> k = 1 \<or> k = 2 \<or> k = 3 \<or> k = 4 \<or> k = 5 \<or> k = 6 \<or> k = 7"
  by auto

lemma rounding_conversion:
  "ambe_subframe_to_mbelib (binary32 pw) stub_parms rounding_subframe
     = Some (converted (binary32 pw) stub_parms rounding_subframe)"
proof (rule to_mbelib_defined)
  show "\<forall>k. 1 \<le> k \<and> k \<le> sf_L rounding_subframe \<longrightarrow>
       (case voicing_index (binary32 pw) rounding_subframe k of
          None \<Rightarrow> False | Some j \<Rightarrow> in_array j (sf_v_uv rounding_subframe))"
    by (auto simp: rounding_subframe_sel voicing_index_rounding in_array_def dest!: seven_cases)
qed (simp_all add: rounding_subframe_sel stub_parms_def INT_MAX_def)

lemma rounding_Vl_7:
  "converted_Vl (binary32 pw) stub_parms rounding_subframe 7 = Some 1"
proof -
  from to_mbelib_harmonic [OF rounding_conversion, of 7 pw]
  have "mp_Vl (converted (binary32 pw) stub_parms rounding_subframe) ! nat 7 = 1"
    by (simp add: rounding_subframe_sel voicing_index_rounding)
  then show ?thesis by (simp add: converted_Vl_def rounding_conversion)
qed

subsection \<open>Frame classification\<close>

text \<open>
  Claim C4. The frame type is a function of the first byte alone: for every byte \<open>b\<close> and
  every rest of the frame the result is Tone when the top six bits of \<open>b\<close> are 111111,
  Silence when they are 111110 and Speech otherwise; two frames with the same first byte
  have the same type; \<open>0xFC\<close> gives Tone, \<open>0xF8\<close> Silence and \<open>0x00\<close> Speech. The
  function takes the frame and nothing else, so no decoder state can enter.
\<close>

theorem classify_first_byte:
  "ambe_classify_frame (b # rest) =
     (if drop_bit 2 b = 0x3f then AMBE_TONE
      else if drop_bit 2 b = 0x3e then AMBE_SILENCE
      else AMBE_SPEECH)
   \<and> ambe_classify_frame (b # rest) = ambe_classify_frame (b # rest')
   \<and> ambe_classify_frame (0xfc # rest) = AMBE_TONE
   \<and> ambe_classify_frame (0xf8 # rest) = AMBE_SILENCE
   \<and> ambe_classify_frame (0x00 # rest) = AMBE_SPEECH"
  by (simp add: ambe_classify_frame_def Let_def sel_tone_iff sel_silence_iff)

theorem classify_first_byte_witness:
  "ambe_classify_frame (0xfb # replicate 9 0xff) = AMBE_SILENCE
   \<and> ambe_classify_frame (0xfb # replicate 9 0xff) = ambe_classify_frame (0xfb # replicate 9 0)
   \<and> ambe_classify_frame (0xff # replicate 9 0) = AMBE_TONE
   \<and> ambe_classify_frame (0xf7 # replicate 9 0xff) = AMBE_SPEECH"
proof -
  have "drop_bit 2 (0xfb :: 8 word) = 0x3e" "drop_bit 2 (0xff :: 8 word) = 0x3f"
    "drop_bit 2 (0xf7 :: 8 word) = 0x3d"
    by (simp_all add: drop_bit_eq_div)
  then show ?thesis
    using classify_first_byte [of "0xfb" "replicate 9 0xff" "replicate 9 0"]
          classify_first_byte [of "0xff" "replicate 9 0" "[]"]
          classify_first_byte [of "0xf7" "replicate 9 0xff" "[]"]
    by auto
qed

subsection \<open>Silence frames\<close>

text \<open>
  Claim C1 asks that a Silence frame yields exactly the \<open>N\<close> requested samples of value 0.
  The silence case of \<^verbatim>\<open>ambe_decode_frame\<close> clears \<^verbatim>\<open>160*sizeof(int16_t)\<close> bytes and
  never looks at \<open>N\<close>. On a buffer whose samples all read \<open>0x0101\<close>: with \<open>N = 152\<close> the
  samples 152 to 159, behind the requested ones, are cleared as well; with \<open>N = 168\<close> the
  samples 160 to 167, which were requested, keep their old value. The call returns 0 in
  both cases. \<^verbatim>\<open>ambe_decode_dtx\<close>, next to it, clears \<^verbatim>\<open>sizeof(int16_t) * N\<close> bytes.
\<close>

theorem silence_fills_160_whatever_N:
  "ambe_classify_frame silence_frame = AMBE_SILENCE
   \<and> return_value (ambe_decode_frame e dec stub_audio 152 silence_frame bad) = Some 0
   \<and> int16_at stub_audio 152 = 257
   \<and> final_sample (ambe_decode_frame e dec stub_audio 152 silence_frame bad) 152 = Some 0
   \<and> final_sample (ambe_decode_frame e dec stub_audio 152 silence_frame bad) 159 = Some 0
   \<and> return_value (ambe_decode_frame e dec stub_audio 168 silence_frame bad) = Some 0
   \<and> final_sample (ambe_decode_frame e dec stub_audio 168 silence_frame bad) 160 = Some 257
   \<and> final_sample (ambe_decode_frame e dec stub_audio 168 silence_frame bad) 167 = Some 257"
proof -
  have "int16_at (memset stub_audio 0 (2 * 160)) 160 = int16_at stub_audio 160"
    "int16_at (memset stub_audio 0 (2 * 160)) 167 = int16_at stub_audio 167"
    by (rule int16_at_eqI; simp add: memset_def)+
  then show ?thesis
    by (simp add: decode_frame_silence classify_silence_frame int16_at_memset_0
          int16_at_stub_audio return_value_def final_sample_def)
qed

text \<open>
  Claim C6. On a Silence frame the call returns 0 and the decoder state after the call is
  the decoder state before it, for every state, and the state is not read either: no
  collaborator is called, and the return value and the buffer are the same from any
  other state \<open>dec2\<close>.
\<close>

theorem silence_keeps_state:
  assumes "ambe_classify_frame frame = AMBE_SILENCE"
  shows "final_dec (ambe_decode_frame e dec audio N frame bad) = Some dec
         \<and> calls (ambe_decode_frame e dec audio N frame bad) = []
         \<and> return_value (ambe_decode_frame e dec audio N frame bad) = Some 0
         \<and> return_value (ambe_decode_frame e dec audio N frame bad) =
             return_value (ambe_decode_frame e dec2 audio N frame bad)
         \<and> final_audio (ambe_decode_frame e dec audio N frame bad) =
             final_audio (ambe_decode_frame e dec2 audio N frame bad)"
  using assms by (simp add: decode_frame_silence final_dec_def return_value_def final_audio_def)

theorem silence_keeps_state_witness:
  "ambe_classify_frame silence_frame = AMBE_SILENCE
   \<and> final_dec (ambe_decode_frame stub_env stub_dec stub_audio 160 silence_frame 0) = Some stub_dec
   \<and> calls (ambe_decode_frame stub_env stub_dec stub_audio 160 silence_frame 0) = []"
  using silence_keeps_state [OF classify_silence_frame, of stub_env stub_dec stub_audio 160 0 stub_dec]
  by (simp add: classify_silence_frame)

subsection \<open>Speech frames\<close>

text \<open>
  Claim C2 says that on a Speech frame the bad-frame indicator is forwarded into the
  parameter-decode step. In \<^verbatim>\<open>ambe_decode_speech\<close> the call is
  \<^verbatim>\<open>ambe_frame_decode_params(sf, &dec->sf_prev, &rp)\<close>. With \<open>bad = 1\<close> the one call to
  the parameter decoder has the previous subframe and the raw parameters as arguments and
  no \<^verbatim>\<open>int\<close> argument at all, and it is the very call made with \<open>bad = 0\<close>.
\<close>

theorem bad_flag_not_forwarded_counterexample:
  "ambe_classify_frame speech_frame = AMBE_SPEECH
   \<and> decode_params_calls
        (calls (ambe_decode_frame stub_env stub_dec stub_audio 160 speech_frame 1))
      = [Decode_params (sf_prev stub_dec) speech_frame]
   \<and> map int_args (decode_params_calls
        (calls (ambe_decode_frame stub_env stub_dec stub_audio 160 speech_frame 1))) = [[]]
   \<and> decode_params_calls
        (calls (ambe_decode_frame stub_env stub_dec stub_audio 160 speech_frame 1))
      = decode_params_calls
        (calls (ambe_decode_frame stub_env stub_dec stub_audio 160 speech_frame 0))"
  by (simp add: classify_speech_frame decode_frame_speech decode_speech_param_calls stub_env_sel)

text \<open>
  Claim C2, amended. On every Speech frame, for every value of \<open>bad\<close>, the parameter decoder
  is called once, with the session's previous subframe and the unpacked raw parameters;
  the flag is not among its arguments.
\<close>

theorem param_decode_gets_no_flag:
  assumes "ambe_classify_frame frame = AMBE_SPEECH"
  shows "decode_params_calls (calls (ambe_decode_frame e dec audio N frame bad))
           = [Decode_params (sf_prev dec) (snd (ambe_frame_unpack_raw e frame))]
       \<and> map int_args (decode_params_calls (calls (ambe_decode_frame e dec audio N frame bad)))
           = [[]]"
  using assms by (simp add: decode_frame_speech decode_speech_param_calls)

theorem param_decode_gets_no_flag_witness:
  "ambe_classify_frame speech_frame = AMBE_SPEECH
   \<and> decode_params_calls
        (calls (ambe_decode_frame stub_env stub_dec stub_audio 160 speech_frame 1))
      = [Decode_params (sf_prev stub_dec) speech_frame]"
  using param_decode_gets_no_flag [OF classify_speech_frame, of stub_env stub_dec stub_audio 160 1]
  by (simp add: classify_speech_frame stub_env_sel)







subsection \<open>Subframe conversion\<close>

text \<open>
  Claim C8 gives the voicing flag of harmonic \<open>i\<close> as the entry of \<open>v_uv\<close> at the index
  \<open>\<lfloor>(i - 1) * 16 * f0\<rfloor>\<close>. The code multiplies in \<^verbatim>\<open>float\<close>, and the rounded product
  can reach the next integer where the exact one stays below it. For \<open>f0 = 5.0f/96.0f\<close>
  and \<open>i = 7\<close> the exact product is \<open>5 - 2^-23\<close>, with floor 4; in binary32 it rounds to
  5, and harmonic 7 gets the flag of band 5, which is 1, where band 4 has 0.
\<close>

theorem exact_product_index_counterexample:
  "1 \<le> sf_L rounding_subframe
   \<and> sf_f0 rounding_subframe = Fin (13981013 / 268435456)
   \<and> is_binary32 (sf_f0 rounding_subframe)
   \<and> b32_pos (sf_f0 rounding_subframe)
   \<and> \<lfloor>real_of_int (7 - 1) * 16 * (13981013 / 268435456)\<rfloor> = 4
   \<and> sf_v_uv rounding_subframe ! 4 = 0
   \<and> voicing_index (binary32 stub_powf) rounding_subframe 7 = Some 5
   \<and> sf_v_uv rounding_subframe ! 5 = 1
   \<and> converted_Vl (binary32 stub_powf) stub_parms rounding_subframe 7 = Some 1"
  by (simp add: rounding_subframe_sel voicing_index_rounding rounding_Vl_7
        is_binary32_rounding_f0 b32_pos_def)

text \<open>
  Claim C8, amended. For a subframe with \<open>L \<ge> 1\<close> whose harmonics stay inside the arrays
  (\<open>L\<close> below the sizes of \<open>Vl\<close> and \<open>Ml\<close>, at most that of \<open>Mlog\<close>, and every index
  \<^verbatim>\<open>(int)((i-1) * 16.0f * f0)\<close> defined and inside \<open>v_uv\<close>) the conversion is defined and
  gives, in the float arithmetic of the platform, \<open>w0 = f0 * (2.0f * (float)M_PI)\<close>,
  \<open>L\<close>, and for each \<open>i\<close> from 1 to \<open>L\<close>: the voicing flag is the entry of \<open>v_uv\<close> at the
  index obtained by casting the float product \<open>((i - 1) * 16.0f) * f0\<close> to \<^verbatim>\<open>int\<close>; the
  magnitude is \<^verbatim>\<open>powf(2.0, Mlog[i-1]) / 6.0f\<close>, multiplied by \<^verbatim>\<open>0.2046f / sqrtf(w0)\<close>
  when the flag is 0 and by nothing otherwise.
\<close>

theorem subframe_conversion:
  assumes "1 \<le> sf_L sf" and "sf_L sf < INT_MAX"
    and "sf_L sf < int (length (mp_Vl mp))" and "sf_L sf < int (length (mp_Ml mp))"
    and "sf_L sf \<le> int (length (sf_Mlog sf))"
    and "\<forall>i. 1 \<le> i \<and> i \<le> sf_L sf \<longrightarrow>
       (case voicing_index u sf i of None \<Rightarrow> False | Some j \<Rightarrow> in_array j (sf_v_uv sf))"
  shows "ambe_subframe_to_mbelib u mp sf = Some (converted u mp sf)
    \<and> mp_w0 (converted u mp sf) = f_mul u (sf_f0 sf) (f_mul u (f_lit u 2) (f_M_PI u))
    \<and> mp_L (converted u mp sf) = sf_L sf
    \<and> (\<forall>i. 1 \<le> i \<and> i \<le> sf_L sf \<longrightarrow>
          (case voicing_index u sf i of
             None \<Rightarrow> False
           | Some j \<Rightarrow>
               mp_Vl (converted u mp sf) ! nat i = sf_v_uv sf ! nat j
               \<and> mp_Ml (converted u mp sf) ! nat i
                   = (if mp_Vl (converted u mp sf) ! nat i = 0
                      then f_mul u (harmonic_magnitude u sf i)
                             (unvoiced_correction u (mp_w0 (converted u mp sf)))
                      else harmonic_magnitude u sf i)))"
proof -
  have c: "ambe_subframe_to_mbelib u mp sf = Some (converted u mp sf)"
    by (rule to_mbelib_defined [OF assms(6,2-5)])
  have "case voicing_index u sf i of
             None \<Rightarrow> False
           | Some j \<Rightarrow>
               mp_Vl (converted u mp sf) ! nat i = sf_v_uv sf ! nat j
               \<and> mp_Ml (converted u mp sf) ! nat i
                   = (if mp_Vl (converted u mp sf) ! nat i = 0
                      then f_mul u (harmonic_magnitude u sf i)
                             (unvoiced_correction u (mp_w0 (converted u mp sf)))
                      else harmonic_magnitude u sf i)"
    if "1 \<le> i \<and> i \<le> sf_L sf" for i
    using to_mbelib_harmonic [OF c, of i] that by auto
  then show ?thesis
    using c to_mbelib_Some(1,2) [OF c] by simp
qed

theorem subframe_conversion_witness:
  "1 \<le> sf_L (stub_subframe (Fin (1 / 8)))
   \<and> sf_L (stub_subframe (Fin (1 / 8))) < INT_MAX
   \<and> sf_L (stub_subframe (Fin (1 / 8))) < int (length (mp_Vl stub_parms))
   \<and> sf_L (stub_subframe (Fin (1 / 8))) < int (length (mp_Ml stub_parms))
   \<and> sf_L (stub_subframe (Fin (1 / 8))) \<le> int (length (sf_Mlog (stub_subframe (Fin (1 / 8)))))
   \<and> voicing_index (binary32 stub_powf) (stub_subframe (Fin (1 / 8))) 1 = Some 0
   \<and> voicing_index (binary32 stub_powf) (stub_subframe (Fin (1 / 8))) 2 = Some 2
   \<and> in_array 0 (sf_v_uv (stub_subframe (Fin (1 / 8))))
   \<and> in_array 2 (sf_v_uv (stub_subframe (Fin (1 / 8))))
   \<and> ambe_subframe_to_mbelib (binary32 stub_powf) stub_parms (stub_subframe (Fin (1 / 8)))
       = Some (converted (binary32 stub_powf) stub_parms (stub_subframe (Fin (1 / 8))))
   \<and> mp_w0 (converted (binary32 stub_powf) stub_parms (stub_subframe (Fin (1 / 8))))
       = b32_mul (Fin (1 / 8)) (b32_mul (b32_lit 2) b32_M_PI)
   \<and> mp_Vl (converted (binary32 stub_powf) stub_parms (stub_subframe (Fin (1 / 8)))) ! 1 = 1
   \<and> mp_Ml (converted (binary32 stub_powf) stub_parms (stub_subframe (Fin (1 / 8)))) ! 1
       = b32_div (Fin 1) (b32_lit 6)
   \<and> mp_Vl (converted (binary32 stub_powf) stub_parms (stub_subframe (Fin (1 / 8)))) ! 2 = 0
   \<and> mp_Ml (converted (binary32 stub_powf) stub_parms (stub_subframe (Fin (1 / 8)))) ! 2
       = b32_mul (b32_div (Fin 1) (b32_lit 6))
           (unvoiced_correction (binary32 stub_powf)
              (b32_mul (Fin (1 / 8)) (b32_mul (b32_lit 2) b32_M_PI)))"
proof -
  let ?sf = "stub_subframe (Fin (1 / 8))"
  let ?u = "binary32 stub_powf"
  have h: "1 \<le> sf_L ?sf" "sf_L ?sf < INT_MAX" "sf_L ?sf < int (length (mp_Vl stub_parms))"
    "sf_L ?sf < int (length (mp_Ml stub_parms))" "sf_L ?sf \<le> int (length (sf_Mlog ?sf))"
    by (simp_all add: stub_subframe_sel stub_parms_def INT_MAX_def)
  have v: "\<forall>i. 1 \<le> i \<and> i \<le> sf_L ?sf \<longrightarrow>
       (case voicing_index ?u ?sf i of None \<Rightarrow> False | Some j \<Rightarrow> in_array j (sf_v_uv ?sf))"
    by (auto simp: stub_subframe_sel voicing_index_stub_eighth in_array_def dest!: two_cases)
  note c = subframe_conversion [OF h v]
  have one: "mp_Vl (converted ?u stub_parms ?sf) ! 1 = 1
      \<and> mp_Ml (converted ?u stub_parms ?sf) ! 1 = b32_div (Fin 1) (b32_lit 6)"
    using c [THEN conjunct2, THEN conjunct2, THEN conjunct2, THEN spec, of 1]
    by (simp add: stub_subframe_sel voicing_index_stub_eighth harmonic_magnitude_def
          binary32_sel stub_powf_def)
  have two: "mp_Vl (converted ?u stub_parms ?sf) ! 2 = 0
      \<and> mp_Ml (converted ?u stub_parms ?sf) ! 2
          = b32_mul (b32_div (Fin 1) (b32_lit 6))
              (unvoiced_correction ?u (b32_mul (Fin (1 / 8)) (b32_mul (b32_lit 2) b32_M_PI)))"
    using c [THEN conjunct2, THEN conjunct2, THEN conjunct2, THEN spec, of 2]
      c [THEN conjunct2, THEN conjunct1]
    by (simp add: stub_subframe_sel voicing_index_stub_eighth harmonic_magnitude_def
          binary32_sel stub_powf_def)
  show ?thesis
    using h c [THEN conjunct1] c [THEN conjunct2, THEN conjunct1] one two
    by (simp add: stub_subframe_sel voicing_index_stub_eighth in_array_def binary32_sel)
qed

subsection \<open>Discontinuous transmission\<close>

text \<open>
  Claim C9. For every decoder state and every \<open>N\<close> from 152 to 168, \<^verbatim>\<open>ambe_decode_dtx\<close>
  returns 0, leaves the decoder state, makes the samples 0 to \<open>N - 1\<close> zero and changes no
  byte from offset \<open>2 * N\<close> on.
\<close>

theorem dtx_zero_fill:
  assumes "152 \<le> N" and "N \<le> 168"
  shows "case ambe_decode_dtx dec audio N of
           (r, dec', audio') \<Rightarrow>
             r = 0 \<and> dec' = dec
             \<and> (\<forall>i. i < nat N \<longrightarrow> int16_at audio' i = 0)
             \<and> (\<forall>a. 2 * nat N \<le> a \<longrightarrow> audio' a = audio a)"
proof -
  have "N < 2 ^ 62" using assms by simp
  with assms have "unat (word_of_nat sizeof_int16 * size_t_of_int N) = 2 * nat N"
    by (intro dtx_size) simp_all
  then show ?thesis
    by (simp add: ambe_decode_dtx_def int16_at_memset_0 memset_above)
qed

theorem dtx_zero_fill_witness:
  "(152::int) \<le> 152 \<and> (152::int) \<le> 168
   \<and> fst (ambe_decode_dtx stub_dec stub_audio 152) = 0
   \<and> int16_at (snd (snd (ambe_decode_dtx stub_dec stub_audio 152))) 151 = 0
   \<and> int16_at (snd (snd (ambe_decode_dtx stub_dec stub_audio 152))) 152 = 257
   \<and> (168::int) \<le> 168
   \<and> fst (ambe_decode_dtx stub_dec stub_audio 168) = 0
   \<and> int16_at (snd (snd (ambe_decode_dtx stub_dec stub_audio 168))) 167 = 0
   \<and> int16_at (snd (snd (ambe_decode_dtx stub_dec stub_audio 168))) 168 = 257"
proof -
  let ?lo = "snd (snd (ambe_decode_dtx stub_dec stub_audio 152))"
  let ?hi = "snd (snd (ambe_decode_dtx stub_dec stub_audio 168))"
  have lo: "fst (ambe_decode_dtx stub_dec stub_audio 152) = 0
      \<and> (\<forall>i. i < 152 \<longrightarrow> int16_at ?lo i = 0) \<and> (\<forall>a. 304 \<le> a \<longrightarrow> ?lo a = stub_audio a)"
    using dtx_zero_fill [of 152 stub_dec stub_audio] by (simp add: split_beta)
  have hi: "fst (ambe_decode_dtx stub_dec stub_audio 168) = 0
      \<and> (\<forall>i. i < 168 \<longrightarrow> int16_at ?hi i = 0) \<and> (\<forall>a. 336 \<le> a \<longrightarrow> ?hi a = stub_audio a)"
    using dtx_zero_fill [of 168 stub_dec stub_audio] by (simp add: split_beta)
  have "int16_at ?lo 152 = int16_at stub_audio 152"
    using lo by (intro int16_at_eqI) simp_all
  moreover have "int16_at ?hi 168 = int16_at stub_audio 168"
    using hi by (intro int16_at_eqI) simp_all
  ultimately show ?thesis
    using lo hi by (simp add: int16_at_stub_audio)
qed

subsection \<open>The bad-frame indicator\<close>

text \<open>
  Claim C10. The argument \<open>bad\<close> has no effect: for every collaborator, decoder state,
  buffer, sample count and frame, the call with \<open>bad = 0\<close> and the call with \<open>bad = 1\<close> (and
  with any two values) give the same return value, the same final decoder state, the same
  audio and the same collaborator calls.
\<close>

theorem bad_flag_has_no_effect:
  "ambe_decode_frame e dec audio N frame 0 = ambe_decode_frame e dec audio N frame 1
   \<and> ambe_decode_frame e dec audio N frame bad = ambe_decode_frame e dec audio N frame bad'"
  by (cases "ambe_classify_frame frame")
     (simp_all add: ambe_decode_frame_def ambe_decode_speech_def)

theorem bad_flag_has_no_effect_witness:
  "ambe_decode_frame stub_env stub_dec stub_audio 160 speech_frame 0 =
   ambe_decode_frame stub_env stub_dec stub_audio 160 speech_frame 1"
  using bad_flag_has_no_effect [of stub_env stub_dec stub_audio 160 speech_frame] by simp

end
